theory Spec2Isabelle
  imports Complex_Main
begin

section \<open>The continuous audio buffer hook (src/src/hooks/useAudioBuffer.ts)\<close>

text \<open>
  The hook keeps three pieces of mutable data: the React state object (\<open>state\<close>,
  replaced by every \<open>setState\<close>), the array \<open>bufferRef.current\<close> of timestamped
  chunks, and the capture source with the callback it invokes
  (\<open>mediaRecorder.ondataavailable\<close>, or the \<open>setInterval\<close> callback of demo mode).

  Times are the integers returned by \<open>Date.now()\<close> (milliseconds) and are passed to
  every operation as a parameter. \<open>bufferSize\<close> is a number of seconds; the model
  covers its integer values. A \<open>Blob\<close> is its byte content and its MIME type;
  \<open>new Blob(parts, {type})\<close> concatenates the parts.
\<close>

type_synonym byte = nat

datatype Blob = Blob (bytes: "byte list") (mime: string)

definition blobSize :: "Blob \<Rightarrow> nat" where
  "blobSize b = length (bytes b)"

definition newBlob :: "Blob list \<Rightarrow> string \<Rightarrow> Blob" where
  "newBlob parts ty = Blob (concat (map bytes parts)) ty"

definition webmOpus :: string where
  "webmOpus = ''audio/webm;codecs=opus''"

record Chunk =
  blob :: Blob
  timestamp :: int

record AudioBufferState =
  isBuffering :: bool
  bufferSize :: int
  currentBuffer :: "Blob list"
  bufferStartTime :: int
  isTriggered :: bool
  triggerTime :: int
  isRemembering :: bool
  rememberingStartTime :: int
  recordedChunks :: "Blob list"

text \<open>
  The callback that the capture source will still call. Both callbacks are arrow
  functions created while \<open>startBuffering\<close> (or \<open>startDemoMode\<close>) runs, and both
  read \<open>state.isRemembering\<close> and \<open>state.bufferSize\<close>. In them \<open>state\<close> is the
  constant of the render whose \<open>startBuffering\<close> was called; later \<open>setState\<close>
  calls produce new state objects in later renders and do not change the object the
  callback closes over. The constructor argument is that captured state object.

  \<open>NoCallback\<close> stands for a hook that nothing will call: never started, or a demo
  interval that was cleared, or a recorder that has delivered its last event. One
  capture source is modelled at a time, the one started last.

  \<open>recorderStopped\<close> holds when the recorder of the callback is no longer recording
  (\<open>stop()\<close> was called on it, or the tracks of its stream were stopped): the next
  \<open>dataavailable\<close> event, carrying what it had gathered, is then its last.
\<close>

datatype Callback =
    NoCallback
  | OnDataAvailable AudioBufferState
  | DemoInterval AudioBufferState

record Hook =
  state :: AudioBufferState
  bufferRef :: "Chunk list"
  callback :: Callback
  recorderStopped :: bool

text \<open>Lines 15-31: the initial state of \<open>useAudioBuffer(bufferSize)\<close>.\<close>

definition useAudioBuffer :: "int \<Rightarrow> Hook" where
  "useAudioBuffer size0 =
     \<lparr> state = \<lparr> isBuffering = False, bufferSize = size0, currentBuffer = [],
                 bufferStartTime = 0, isTriggered = False, triggerTime = 0,
                 isRemembering = False, rememberingStartTime = 0, recordedChunks = [] \<rparr>,
       bufferRef = [],
       callback = NoCallback,
       recorderStopped = False \<rparr>"

text \<open>
  Lines 125-142 and lines 62-79 are the same statements: push the chunk, append it to
  \<open>recordedChunks\<close> when the closure's \<open>state.isRemembering\<close> holds, drop every chunk
  whose timestamp is not greater than \<open>timestamp - state.bufferSize * 1000\<close> (the
  closure's \<open>state.bufferSize\<close>), and publish the blobs as \<open>currentBuffer\<close>. The two
  \<open>setState\<close> calls take the previous state as argument, so they apply to the latest
  state. \<open>cst\<close> is the state object the callback closes over.
\<close>

definition pushAndEvict :: "AudioBufferState \<Rightarrow> int \<Rightarrow> Blob \<Rightarrow> Hook \<Rightarrow> Hook" where
  "pushAndEvict cst ts data h =
     (let pushed = bufferRef h @ [\<lparr> blob = data, timestamp = ts \<rparr>];
          st1 = (if isRemembering cst
                 then (state h)\<lparr> recordedChunks := recordedChunks (state h) @ [data] \<rparr>
                 else state h);
          cutoffTime = ts - bufferSize cst * 1000;
          kept = filter (\<lambda>chunk. timestamp chunk > cutoffTime) pushed
      in h\<lparr> state := st1\<lparr> currentBuffer := map blob kept \<rparr>, bufferRef := kept \<rparr>)"

text \<open>Lines 122-144: the recorder's callback ignores empty data.\<close>

definition ondataavailable :: "AudioBufferState \<Rightarrow> int \<Rightarrow> Blob \<Rightarrow> Hook \<Rightarrow> Hook" where
  "ondataavailable cst ts data h =
     (if blobSize data > 0 then pushAndEvict cst ts data h else h)"

text \<open>
  Lines 44-80: the demo interval builds a blob from one second of generated samples
  (a \<open>Float32Array\<close> of 44100 entries, that is 176400 bytes, whose content depends on
  \<open>Math.random\<close>); the sample bytes are the parameter \<open>samples\<close>.
\<close>

definition demoInterval :: "AudioBufferState \<Rightarrow> int \<Rightarrow> byte list \<Rightarrow> Hook \<Rightarrow> Hook" where
  "demoInterval cst ts samples h = pushAndEvict cst ts (Blob samples webmOpus) h"

text \<open>
  Lines 34-81. No statement of \<open>startDemoMode\<close> can throw. \<open>cst\<close> is the state
  object of the render that created the function; \<open>startDemoMode\<close> is the call from
  the latest render.
\<close>

definition startDemoModeFrom :: "AudioBufferState \<Rightarrow> int \<Rightarrow> Hook \<Rightarrow> Hook" where
  "startDemoModeFrom cst now h =
     h\<lparr> state := (state h)\<lparr> isBuffering := True, bufferStartTime := now \<rparr>,
        callback := DemoInterval cst \<rparr>"

definition startDemoMode :: "int \<Rightarrow> Hook \<Rightarrow> Hook" where
  "startDemoMode now h = startDemoModeFrom (state h) now h"

text \<open>
  Lines 95-190. The outcome of acquiring the microphone is an input: the permission
  query may report \<open>denied\<close> (line 99 throws), \<open>getUserMedia\<close> may reject with
  \<open>NotAllowedError\<close>, \<open>NotFoundError\<close>, \<open>NotReadableError\<close> or something else, or
  the stream is granted. Every exception is caught at line 165 and ends in
  \<open>startDemoMode()\<close>.

  \<open>startBuffering\<close> is an \<open>async\<close> function: it awaits the permission query (line
  98) and \<open>getUserMedia\<close> (line 103, which may show a permission prompt) before it
  creates the recorder and its callback (line 122). In \<open>startBufferingFrom cst acq now h\<close>
  the state \<open>cst\<close> is the one of the render whose \<open>startBuffering\<close> was called, and
  \<open>h\<close> is the hook at the time \<open>now\<close> when the acquisition settles; whatever was done
  to the hook in between is part of \<open>h\<close>. \<open>startBuffering\<close> is the call whose
  acquisition settles before anything else happens.
\<close>

datatype Acquisition =
    Granted
  | PermissionStateDenied
  | NotAllowedError
  | NotFoundError
  | NotReadableError
  | OtherError

definition startBufferingFrom :: "AudioBufferState \<Rightarrow> Acquisition \<Rightarrow> int \<Rightarrow> Hook \<Rightarrow> Hook" where
  "startBufferingFrom cst acq now h =
     (case acq of
        Granted \<Rightarrow>
          h\<lparr> state := (state h)\<lparr> isBuffering := True, bufferStartTime := now \<rparr>,
             callback := OnDataAvailable cst,
             recorderStopped := False \<rparr>
      | _ \<Rightarrow> startDemoModeFrom cst now h)"

definition startBuffering :: "Acquisition \<Rightarrow> int \<Rightarrow> Hook \<Rightarrow> Hook" where
  "startBuffering acq now h = startBufferingFrom (state h) acq now h"

text \<open>
  Lines 193-210. \<open>cst\<close> is the state object of the render that created this
  \<open>stopBuffering\<close> (its dependency is \<open>state.isBuffering\<close>). The three steps are the
  three \<open>if\<close> statements: \<open>mediaRecorderRef.current.stop()\<close>, guarded by the
  closure's \<open>isBuffering\<close>; \<open>clearInterval(intervalRef.current)\<close>, after which a demo
  interval never runs its callback (for a recorder it ends the periodic
  \<open>requestData()\<close>); and stopping the tracks of \<open>streamRef.current\<close>, which ends
  the recording. A stopped recorder fires one more \<open>dataavailable\<close> event.
\<close>

definition stopBuffering :: "AudioBufferState \<Rightarrow> Hook \<Rightarrow> Hook" where
  "stopBuffering cst h =
     (let h1 = (case callback h of
                  OnDataAvailable c \<Rightarrow>
                    if isBuffering cst then h\<lparr> recorderStopped := True \<rparr> else h
                | _ \<Rightarrow> h);
          h2 = (case callback h1 of
                  DemoInterval c \<Rightarrow> h1\<lparr> callback := NoCallback \<rparr>
                | _ \<Rightarrow> h1);
          h3 = (case callback h2 of
                  OnDataAvailable c \<Rightarrow> h2\<lparr> recorderStopped := True \<rparr>
                | _ \<Rightarrow> h2)
      in h3\<lparr> state := (state h3)\<lparr> isBuffering := False \<rparr> \<rparr>)"

text \<open>
  Lines 303-308: the effect \<open>useEffect(() => () => stopBuffering(), [stopBuffering])\<close>.
  \<open>stopBuffering\<close> is re-created whenever \<open>state.isBuffering\<close> differs from the
  previous render's, and React then runs the cleanup of the previous effect, which
  calls the previous render's \<open>stopBuffering\<close>. That call sets the state again, so the
  hook is rendered again. \<open>rerender prev h\<close> renders the hook \<open>h\<close> after the render
  whose state was \<open>prev\<close>, until a render leaves \<open>isBuffering\<close> unchanged.
\<close>

function rerender :: "AudioBufferState \<Rightarrow> Hook \<Rightarrow> Hook" where
  "rerender prev h =
     (if isBuffering (state h) = isBuffering prev then h
      else rerender (state h) (stopBuffering prev h))"
  by pat_completeness auto
termination
  by (relation "measure (\<lambda>(prev, h).
        if isBuffering (state h) = isBuffering prev then 0
        else if isBuffering (state h) then 2 else 1)")
     (auto simp: stopBuffering_def Let_def split: Callback.splits)

declare rerender.simps [simp del]

text \<open>
  What the capture source does: the recorder delivers data to \<open>ondataavailable\<close>,
  the demo timer runs its callback. An event reaches the callback that will still be
  called, with the state object that callback closes over; the event of a stopped
  recorder is its last.
\<close>

datatype Event =
    DataAvailable int Blob
  | DemoTick int "byte list"

fun fire :: "Event \<Rightarrow> Hook \<Rightarrow> Hook" where
  "fire (DataAvailable ts data) h =
     (case callback h of
        OnDataAvailable cst \<Rightarrow>
          if recorderStopped h then (ondataavailable cst ts data h)\<lparr> callback := NoCallback \<rparr>
          else ondataavailable cst ts data h
      | _ \<Rightarrow> h)"
| "fire (DemoTick ts samples) h =
     (case callback h of DemoInterval cst \<Rightarrow> demoInterval cst ts samples h | _ \<Rightarrow> h)"

text \<open>
  One capture as the hook performs it: \<open>startBuffering\<close> is called at \<open>ts\<close> and the
  microphone is granted; the hook is rendered again, which stops the recorder; the
  recorder fires its last event with \<open>data\<close>.
\<close>

definition capture :: "int \<Rightarrow> Blob \<Rightarrow> Hook \<Rightarrow> Hook" where
  "capture ts data h =
     fire (DataAvailable ts data) (rerender (state h) (startBuffering Granted ts h))"

fun captureAll :: "(int \<times> Blob) list \<Rightarrow> Hook \<Rightarrow> Hook" where
  "captureAll [] h = h"
| "captureAll ((ts, data) # rest) h = captureAll rest (capture ts data h)"

text \<open>Lines 213-237. The promise is only ever resolved.\<close>

definition relevantChunks :: "int \<Rightarrow> Hook \<Rightarrow> Chunk list" where
  "relevantChunks now h =
     (let bufferStartTime = now - bufferSize (state h) * 1000
      in filter (\<lambda>chunk. timestamp chunk \<ge> bufferStartTime \<and> timestamp chunk \<le> now)
           (bufferRef h))"

definition triggerRecording :: "int \<Rightarrow> Hook \<Rightarrow> Blob \<times> Hook" where
  "triggerRecording now h =
     (newBlob (map blob (relevantChunks now h)) webmOpus,
      h\<lparr> state := (state h)\<lparr> isTriggered := True, triggerTime := now \<rparr> \<rparr>)"

text \<open>Lines 240-259.\<close>

definition bufferChunks :: "int \<Rightarrow> Hook \<Rightarrow> Chunk list" where
  "bufferChunks now h =
     (let bufferStartTime = now - bufferSize (state h) * 1000
      in filter (\<lambda>chunk. timestamp chunk \<ge> bufferStartTime) (bufferRef h))"

definition startRemembering :: "int \<Rightarrow> Hook \<Rightarrow> Blob list \<times> Hook" where
  "startRemembering now h =
     (map blob (bufferChunks now h),
      h\<lparr> state := (state h)\<lparr> isRemembering := True, isTriggered := True,
                             triggerTime := now,
                             rememberingStartTime := now - bufferSize (state h) * 1000,
                             recordedChunks := map blob (bufferChunks now h) \<rparr> \<rparr>)"

text \<open>Lines 262-273.\<close>

definition stopRemembering :: "Hook \<Rightarrow> Blob \<times> Hook" where
  "stopRemembering h =
     (newBlob (recordedChunks (state h)) webmOpus,
      h\<lparr> state := (state h)\<lparr> isRemembering := False, recordedChunks := [] \<rparr> \<rparr>)"

text \<open>Lines 276-286.\<close>

definition updateBufferSize :: "int \<Rightarrow> int \<Rightarrow> Hook \<Rightarrow> Hook" where
  "updateBufferSize newSize now h =
     (let clampedSize = max 30 (min 3000 newSize);
          cutoffTime = now - clampedSize * 1000
      in h\<lparr> state := (state h)\<lparr> bufferSize := clampedSize \<rparr>,
            bufferRef := filter (\<lambda>chunk. timestamp chunk > cutoffTime) (bufferRef h) \<rparr>)"

text \<open>
  Lines 289-301. The duration is a number of seconds, the fill a percentage. With
  \<open>state.bufferSize = 0\<close> the JavaScript division yields an infinity or \<open>NaN\<close>:
  for a positive duration \<open>Math.min(100, Infinity)\<close> is 100; for a duration of 0 the
  result is \<open>NaN\<close> and for a negative one \<open>-Infinity\<close>, and \<open>None\<close> stands for
  these two results, which are not real numbers.
\<close>

definition getBufferDuration :: "Hook \<Rightarrow> real" where
  "getBufferDuration h =
     (if length (bufferRef h) = 0 then 0
      else let oldest = timestamp (hd (bufferRef h));
               newest = timestamp (last (bufferRef h))
           in real_of_int (newest - oldest) / 1000)"

definition getBufferFill :: "Hook \<Rightarrow> real option" where
  "getBufferFill h =
     (let duration = getBufferDuration h
      in if bufferSize (state h) = 0
         then (if duration > 0 then Some 100 else None)
         else Some (min 100 (duration / real_of_int (bufferSize (state h)) * 100)))"

text \<open>
  What a caller of the three extraction operations observes: a returned value, or an
  error. \<open>startRemembering\<close> and \<open>stopRemembering\<close> contain no \<open>throw\<close>, no guard and
  no early return, and the promise of \<open>triggerRecording\<close> is built from \<open>resolve\<close>
  alone, so every call returns. The error names are those of the specification; the
  hook declares none of them.
\<close>

datatype error = AlreadyActive | NotActive | EmptyBuffer

definition startRemembering_outcome :: "int \<Rightarrow> Hook \<Rightarrow> error + (Blob list \<times> Hook)" where
  "startRemembering_outcome now h = Inr (startRemembering now h)"

definition stopRemembering_outcome :: "Hook \<Rightarrow> error + (Blob \<times> Hook)" where
  "stopRemembering_outcome h = Inr (stopRemembering h)"

definition triggerRecording_outcome :: "int \<Rightarrow> Hook \<Rightarrow> error + (Blob \<times> Hook)" where
  "triggerRecording_outcome now h = Inr (triggerRecording now h)"

text \<open>
  One chunk per second: \<open>n\<close> captures at \<open>t0 + 1000 * first\<close>,
  \<open>t0 + 1000 * (first + 1)\<close>, ..., the \<open>i\<close>-th carrying the one-byte blob \<open>[i]\<close>.
\<close>

definition oneSecondBlob :: "nat \<Rightarrow> Blob" where
  "oneSecondBlob i = Blob [i] webmOpus"

definition perSecond :: "int \<Rightarrow> nat \<Rightarrow> nat \<Rightarrow> (int \<times> Blob) list" where
  "perSecond t0 first n =
     map (\<lambda>i. (t0 + 1000 * int i, oneSecondBlob i)) [first ..< first + n]"

section \<open>The sound trigger (component, lines 434-439 and 561-636)\<close>

text \<open>
  \<open>soundDetection\<close> is React state of the component. \<open>startSoundDetectionLoop\<close> defines
  the arrow function \<open>detectSound\<close>, runs it once, and \<open>detectSound\<close> re-schedules
  itself with \<open>requestAnimationFrame(detectSound)\<close>: every frame of one loop runs the
  same function object, which reads \<open>soundDetection\<close> of the render that created
  \<open>startSoundDetectionLoop\<close>. \<open>setSoundDetection\<close> writes the component's state.

  The level \<open>volumePercent\<close> (lines 595-599, the mean of the analyser's bytes scaled to
  0..100) is the input of a frame, together with \<open>Date.now()\<close>.
\<close>

record SoundDetection =
  isActive :: bool
  threshold :: real
  lastTrigger :: int
  cooldown :: int


text \<open>
  Lines 602-607: one evaluation. \<open>sd\<close> is the \<open>soundDetection\<close> object that
  \<open>detectSound\<close> closes over, \<open>rs\<close> the component's current state. The result is
  whether the trigger branch was entered, and the state after \<open>setSoundDetection\<close>.
\<close>

definition evaluate :: "SoundDetection \<Rightarrow> real \<Rightarrow> int \<Rightarrow> SoundDetection \<Rightarrow> bool \<times> SoundDetection" where
  "evaluate sd volumePercent now rs =
     (if volumePercent > threshold sd \<and> now - lastTrigger sd > cooldown sd
      then (True, rs\<lparr> lastTrigger := now \<rparr>)
      else (False, rs))"

text \<open>
  Lines 591-633: the frames of one loop. A frame whose closure has \<open>isActive\<close> false
  returns before evaluating and does not re-schedule.
\<close>

fun detectSound :: "SoundDetection \<Rightarrow> (real \<times> int) list \<Rightarrow> SoundDetection \<Rightarrow> bool list \<times> SoundDetection" where
  "detectSound sd [] rs = ([], rs)"
| "detectSound sd ((volumePercent, now) # frames) rs =
     (if \<not> isActive sd then ([], rs)
      else (case evaluate sd volumePercent now rs of
              (fired, rs1) \<Rightarrow>
                (case detectSound sd frames rs1 of
                   (rest, rs2) \<Rightarrow> (fired # rest, rs2))))"




section \<open>Runs of the hook\<close>

text \<open>
  The component mounts the hook with \<open>useAudioBuffer(30)\<close>. The runs below start
  from a fresh hook and count time from the mount; each chunk comes from one capture.
\<close>

text \<open>A window of 30 seconds and one chunk per second for 45 seconds.\<close>

definition run45 :: Hook where
  "run45 = captureAll (perSecond 0 1 45) (useAudioBuffer 30)"

text \<open>
  Ten chunks buffered over ten seconds, then \<open>startRemembering\<close>, then five more
  captures.
\<close>

definition buffered10 :: Hook where
  "buffered10 = captureAll (perSecond 0 1 10) (useAudioBuffer 30)"

definition remembering10 :: Hook where
  "remembering10 = snd (startRemembering 10000 buffered10)"

definition remembering15 :: Hook where
  "remembering15 = captureAll (perSecond 0 11 5) remembering10"

text \<open>Five chunks in a window of 30 seconds, and nothing delivered afterwards.\<close>

definition buffered5 :: Hook where
  "buffered5 = captureAll (perSecond 0 1 5) (useAudioBuffer 30)"

text \<open>Twenty-one chunks, spanning 20 seconds, in a window of 60 seconds.\<close>

definition buffered21 :: Hook where
  "buffered21 = captureAll (perSecond 0 1 21) (useAudioBuffer 60)"



text \<open>
  A resize while a start is pending. The window is set to 60 seconds at 1 s and one
  chunk is captured at 12 s. \<open>startBuffering\<close> is called at 40 s and waits for the
  microphone; at 41 s the window is resized to 30 seconds; at 45 s the microphone is
  granted, the hook is rendered again and the recorder fires its last event.
\<close>

definition buffered12 :: Hook where
  "buffered12 = capture 12000 (oneSecondBlob 12) (updateBufferSize 60 1000 (useAudioBuffer 30))"

definition resizedWhilePending :: Hook where
  "resizedWhilePending =
     fire (DataAvailable 45000 (oneSecondBlob 45))
       (rerender (state (updateBufferSize 30 41000 buffered12))
          (startBufferingFrom (state buffered12) Granted 45000
             (updateBufferSize 30 41000 buffered12)))"

text \<open>
  A remembering session begun while a start is pending. The component calls
  \<open>startBuffering\<close> at mount, which waits for the microphone; at 0.5 s
  \<open>startRemembering\<close> is called; at 2 s the microphone is granted, the hook is
  rendered again and the recorder fires its last event.
\<close>

definition rememberingWhilePending :: Hook where
  "rememberingWhilePending =
     fire (DataAvailable 2000 (oneSecondBlob 2))
       (rerender (state (snd (startRemembering 500 (useAudioBuffer 30))))
          (startBufferingFrom (state (useAudioBuffer 30)) Granted 2000
             (snd (startRemembering 500 (useAudioBuffer 30)))))"

text \<open>
  The microphone is refused at mount: \<open>startBuffering\<close> falls back to demo mode, and
  the hook is rendered again.
\<close>

definition refusedAtMount :: Hook where
  "refusedAtMount =
     rerender (state (useAudioBuffer 30)) (startBuffering NotAllowedError 0 (useAudioBuffer 30))"

text \<open>
  The window invariant of the specification, in milliseconds: no buffered chunk is
  older at \<open>now\<close> than the hook's current \<open>bufferSize\<close>.
\<close>

definition withinWindow :: "int \<Rightarrow> Hook \<Rightarrow> bool" where
  "withinWindow now h =
     list_all (\<lambda>chunk. now - timestamp chunk \<le> bufferSize (state h) * 1000) (bufferRef h)"

section \<open>Basic facts about the operations\<close>

lemma pushAndEvict_bufferRef:
  "bufferRef (pushAndEvict cst ts data h) =
     filter (\<lambda>chunk. timestamp chunk > ts - bufferSize cst * 1000)
       (bufferRef h @ [\<lparr> blob = data, timestamp = ts \<rparr>])"
  by (simp add: pushAndEvict_def Let_def)

lemma pushAndEvict_bufferSize:
  "bufferSize (state (pushAndEvict cst ts data h)) = bufferSize (state h)"
  by (simp add: pushAndEvict_def Let_def)

text \<open>
  After a delivery every buffered chunk is younger than the window of the callback's
  closure, and a delivered chunk reaches \<open>recordedChunks\<close> exactly when the closure's
  \<open>isRemembering\<close> holds.
\<close>

lemma pushAndEvict_closure_window:
  "list_all (\<lambda>chunk. ts - timestamp chunk < bufferSize cst * 1000)
     (bufferRef (pushAndEvict cst ts data h))"
  by (auto simp: pushAndEvict_bufferRef list_all_iff)

lemma pushAndEvict_recordedChunks:
  "recordedChunks (state (pushAndEvict cst ts data h)) =
     (if isRemembering cst then recordedChunks (state h) @ [data]
      else recordedChunks (state h))"
  by (simp add: pushAndEvict_def Let_def)

lemma updateBufferSize_bufferRef:
  "bufferRef (updateBufferSize n now h) =
     filter (\<lambda>chunk. timestamp chunk > now - max 30 (min 3000 n) * 1000) (bufferRef h)"
  by (simp add: updateBufferSize_def Let_def)

lemma updateBufferSize_bufferSize:
  "bufferSize (state (updateBufferSize n now h)) = max 30 (min 3000 n)"
  by (simp add: updateBufferSize_def Let_def)

text \<open>
  Rendering again changes neither the buffer nor the window nor the remembering
  fields, keeps a recorder's callback, and never leaves the hook buffering unless it
  was buffering before and after.
\<close>

lemma stopBuffering_keeps:
  "bufferRef (stopBuffering cst h) = bufferRef h"
  "bufferSize (state (stopBuffering cst h)) = bufferSize (state h)"
  "isRemembering (state (stopBuffering cst h)) = isRemembering (state h)"
  "recordedChunks (state (stopBuffering cst h)) = recordedChunks (state h)"
  "\<not> isBuffering (state (stopBuffering cst h))"
  by (simp_all add: stopBuffering_def Let_def split: Callback.splits)

lemma stopBuffering_recorder:
  "callback h = OnDataAvailable c \<Longrightarrow> callback (stopBuffering cst h) = OnDataAvailable c"
  by (simp add: stopBuffering_def Let_def)

lemma rerender_keeps:
  "bufferRef (rerender prev h) = bufferRef h
   \<and> bufferSize (state (rerender prev h)) = bufferSize (state h)
   \<and> isRemembering (state (rerender prev h)) = isRemembering (state h)
   \<and> recordedChunks (state (rerender prev h)) = recordedChunks (state h)"
proof (induction prev h rule: rerender.induct)
  case (1 prev h)
  show ?case
  proof (cases "isBuffering (state h) = isBuffering prev")
    case True
    then show ?thesis by (simp add: rerender.simps [of prev h])
  next
    case False
    with 1 show ?thesis by (simp add: rerender.simps [of prev h] stopBuffering_keeps)
  qed
qed

lemma rerender_recorder:
  "callback h = OnDataAvailable c \<Longrightarrow> callback (rerender prev h) = OnDataAvailable c"
proof (induction prev h rule: rerender.induct)
  case (1 prev h)
  show ?case
  proof (cases "isBuffering (state h) = isBuffering prev")
    case True
    with 1 show ?thesis by (simp add: rerender.simps [of prev h])
  next
    case False
    with 1 show ?thesis by (simp add: rerender.simps [of prev h] stopBuffering_recorder)
  qed
qed

lemma rerender_not_buffering:
  "isBuffering (state (rerender prev h)) \<Longrightarrow> isBuffering prev \<and> isBuffering (state h)"
proof (induction prev h rule: rerender.induct)
  case (1 prev h)
  show ?case
  proof (cases "isBuffering (state h) = isBuffering prev")
    case True
    with 1 show ?thesis by (simp add: rerender.simps [of prev h])
  next
    case False
    with 1 show ?thesis by (simp add: rerender.simps [of prev h] stopBuffering_keeps)
  qed
qed

text \<open>
  A start that falls back to demo mode in a hook that was not buffering: the render
  that follows clears the interval.
\<close>

lemma failed_start_is_cancelled:
  assumes "acq \<noteq> Granted" and "\<not> isBuffering (state h)"
  shows "callback (rerender (state h) (startBuffering acq now h)) = NoCallback"
    and "\<not> isBuffering (state (rerender (state h) (startBuffering acq now h)))"
    and "bufferRef (rerender (state h) (startBuffering acq now h)) = bufferRef h"
proof -
  from assms(1) have demo: "startBuffering acq now h = startDemoModeFrom (state h) now h"
    by (cases acq) (simp_all add: startBuffering_def startBufferingFrom_def)
  from assms(2) show "callback (rerender (state h) (startBuffering acq now h)) = NoCallback"
    unfolding demo
    by (simp add: rerender.simps startDemoModeFrom_def stopBuffering_def Let_def)
  from assms(2) rerender_not_buffering [of "state h" "startBuffering acq now h"]
  show "\<not> isBuffering (state (rerender (state h) (startBuffering acq now h)))"
    by blast
  show "bufferRef (rerender (state h) (startBuffering acq now h)) = bufferRef h"
    unfolding demo by (simp add: rerender_keeps startDemoModeFrom_def)
qed

text \<open>
  A capture, whose callback is created from the current state: the chunk is pushed,
  the buffer is evicted with the current window, and the chunk reaches
  \<open>recordedChunks\<close> when the hook is remembering.
\<close>

lemma capture_ondataavailable:
  "bufferRef (capture ts data h) =
     bufferRef (ondataavailable (state h) ts data
       (rerender (state h) (startBuffering Granted ts h)))"
  "state (capture ts data h) =
     state (ondataavailable (state h) ts data
       (rerender (state h) (startBuffering Granted ts h)))"
proof -
  have "callback (startBuffering Granted ts h) = OnDataAvailable (state h)"
    by (simp add: startBuffering_def startBufferingFrom_def)
  then have cb: "callback (rerender (state h) (startBuffering Granted ts h))
      = OnDataAvailable (state h)"
    by (rule rerender_recorder)
  show "bufferRef (capture ts data h) =
     bufferRef (ondataavailable (state h) ts data
       (rerender (state h) (startBuffering Granted ts h)))"
    unfolding capture_def by (simp add: cb)
  show "state (capture ts data h) =
     state (ondataavailable (state h) ts data
       (rerender (state h) (startBuffering Granted ts h)))"
    unfolding capture_def by (simp add: cb)
qed

lemma capture_bufferRef:
  assumes "0 < blobSize data"
  shows "bufferRef (capture ts data h) =
     filter (\<lambda>chunk. timestamp chunk > ts - bufferSize (state h) * 1000)
       (bufferRef h @ [\<lparr> blob = data, timestamp = ts \<rparr>])"
  using assms
  by (simp add: capture_ondataavailable ondataavailable_def pushAndEvict_bufferRef
      rerender_keeps startBuffering_def startBufferingFrom_def)

lemma capture_bufferSize:
  "bufferSize (state (capture ts data h)) = bufferSize (state h)"
  by (simp add: capture_ondataavailable ondataavailable_def pushAndEvict_bufferSize
      rerender_keeps startBuffering_def startBufferingFrom_def)

lemma capture_within_window:
  assumes "0 < blobSize data"
  shows "withinWindow ts (capture ts data h)"
  unfolding withinWindow_def capture_bufferSize capture_bufferRef [OF assms]
  by (auto simp: list_all_iff)

lemma capture_recordedChunks:
  "recordedChunks (state (capture ts data h)) =
     (if isRemembering (state h) \<and> 0 < blobSize data then recordedChunks (state h) @ [data]
      else recordedChunks (state h))"
  by (simp add: capture_ondataavailable ondataavailable_def pushAndEvict_recordedChunks
      rerender_keeps startBuffering_def startBufferingFrom_def)

text \<open>
  Ten chunks buffered, \<open>startRemembering\<close>, and five captures started during the
  session: all fifteen chunks are recorded.
\<close>

lemma remembering15_records_all:
  "recordedChunks (state remembering15) = map oneSecondBlob [1 ..< 16]"
  by code_simp

lemma sorted_hd_le: "sorted xs \<Longrightarrow> x \<in> set xs \<Longrightarrow> hd xs \<le> (x::int)"
  by (cases xs) auto

lemma sorted_le_last: "sorted xs \<Longrightarrow> x \<in> set xs \<Longrightarrow> (x::int) \<le> last xs"
  by (induction xs) (auto split: if_splits)

lemma span_filter_le:
  assumes "sorted (xs :: int list)" and "filter P xs \<noteq> []"
  shows "last (filter P xs) - hd (filter P xs) \<le> last xs - hd xs"
proof -
  from assms(2) have "hd (filter P xs) \<in> set (filter P xs)"
    and "last (filter P xs) \<in> set (filter P xs)"
    by (rule hd_in_set, rule last_in_set)
  then have "hd (filter P xs) \<in> set xs" and "last (filter P xs) \<in> set xs"
    by simp_all
  with assms(1) have "hd xs \<le> hd (filter P xs)" and "last (filter P xs) \<le> last xs"
    by (auto intro: sorted_hd_le sorted_le_last)
  then show ?thesis by linarith
qed

lemma getBufferDuration_timestamps:
  "getBufferDuration h =
     (if bufferRef h = [] then 0
      else real_of_int (last (map timestamp (bufferRef h)) - hd (map timestamp (bufferRef h)))
             / 1000)"
  by (simp add: getBufferDuration_def Let_def hd_map last_map)

text \<open>
  Within one loop every frame is compared with the \<open>lastTrigger\<close> of the closure,
  whatever the earlier frames wrote to the component's state.
\<close>

lemma detectSound_reads_closure:
  "isActive sd \<Longrightarrow>
     fst (detectSound sd frames rs) =
       map (\<lambda>(volumePercent, now).
              volumePercent > threshold sd \<and> now - lastTrigger sd > cooldown sd) frames"
proof (induction frames arbitrary: rs)
  case Nil
  show ?case by simp
next
  case (Cons frame frames)
  obtain v now where frame: "frame = (v, now)" by (cases frame)
  obtain fired rs1 where ev: "evaluate sd v now rs = (fired, rs1)"
    by (cases "evaluate sd v now rs")
  obtain rest rs2 where loop: "detectSound sd frames rs1 = (rest, rs2)"
    by (cases "detectSound sd frames rs1")
  from ev have fired: "fired = (v > threshold sd \<and> now - lastTrigger sd > cooldown sd)"
    by (auto simp: evaluate_def split: if_splits)
  from Cons.IH [OF Cons.prems, of rs1] loop
  have rest: "rest = map (\<lambda>(volumePercent, now).
      volumePercent > threshold sd \<and> now - lastTrigger sd > cooldown sd) frames"
    by simp
  from Cons.prems show ?case
    by (simp add: frame ev loop fired rest)
qed

section \<open>Ingestion and the window\<close>

text \<open>
  C1. After every ingestion, every chunk remaining in the buffer satisfies
  \<open>now - chunk.timestamp \<le> windowSeconds\<close>, where \<open>now\<close> is the ingestion timestamp
  and \<open>windowSeconds\<close> is the current \<open>bufferSize\<close>.

  The callback evicts with the \<open>bufferSize\<close> of the render whose \<open>startBuffering\<close>
  was called. In the run \<open>resizedWhilePending\<close> the window is resized from 60 to 30
  seconds while a start waits for the microphone: after the ingestion at 45 s the
  current \<open>bufferSize\<close> is 30 and the chunk stamped 12 s, 33 seconds old, is still
  buffered.
\<close>

theorem pending_start_evicts_with_old_window:
  "bufferSize (state resizedWhilePending) = 30
   \<and> map timestamp (bufferRef resizedWhilePending) = [12000, 45000]
   \<and> \<not> withinWindow 45000 resizedWhilePending"
  by code_simp



section \<open>Remembering\<close>

text \<open>
  C2. The artifact returned by \<open>stopRemembering\<close> consists of the window snapshot
  taken at \<open>startRemembering\<close> followed by every chunk ingested while the session was
  active; with ten chunks buffered, five more ingested and then a stop, the artifact
  holds fifteen chunks.

  A chunk is recorded only when the callback that ingests it was created from a
  render in which \<open>isRemembering\<close> held. In the run \<open>rememberingWhilePending\<close> the
  session starts while the start made at mount waits for the microphone: the snapshot
  is empty, the chunk stamped 2 s is ingested into the ring buffer during the session
  but not into \<open>recordedChunks\<close>, and the artifact is empty.
\<close>

theorem pending_start_misses_remembering_session:
  "fst (startRemembering 500 (useAudioBuffer 30)) = []
   \<and> isRemembering (state rememberingWhilePending)
   \<and> bufferRef rememberingWhilePending = [\<lparr> blob = oneSecondBlob 2, timestamp = 2000 \<rparr>]
   \<and> recordedChunks (state rememberingWhilePending) = []
   \<and> fst (stopRemembering rememberingWhilePending) = Blob [] webmOpus
   \<and> fst (stopRemembering rememberingWhilePending) \<noteq> newBlob [oneSecondBlob 2] webmOpus"
  by code_simp

text \<open>
  C7. \<open>startRemembering\<close> fails with \<open>AlreadyActive\<close> when the state is already
  remembering, and \<open>stopRemembering\<close> fails with \<open>NotActive\<close> when it is idle.

  As stated this does not hold: a second \<open>startRemembering\<close> in a remembering hook
  returns, and so does \<open>stopRemembering\<close> in a fresh hook.
\<close>

theorem remembering_misuse_returns:
  "isRemembering (state remembering10)
   \<and> startRemembering_outcome 12000 remembering10 \<noteq> Inl AlreadyActive
   \<and> \<not> isRemembering (state (useAudioBuffer 30))
   \<and> stopRemembering_outcome (useAudioBuffer 30) \<noteq> Inl NotActive"
  by code_simp

text \<open>
  C7, as the hook behaves: neither operation ever fails. In every state
  \<open>startRemembering\<close> returns the blobs of the buffered chunks not older than the
  current window, replaces \<open>recordedChunks\<close> by them and leaves the hook remembering;
  in every state \<open>stopRemembering\<close> returns the blob made of \<open>recordedChunks\<close>,
  clears them and leaves the hook idle. Neither touches the ring buffer.
\<close>

theorem remembering_never_fails:
  "(\<exists>h'. startRemembering_outcome now h = Inr (map blob (bufferChunks now h), h')
        \<and> isRemembering (state h')
        \<and> recordedChunks (state h') = map blob (bufferChunks now h)
        \<and> bufferRef h' = bufferRef h)
   \<and> (\<exists>h'. stopRemembering_outcome h = Inr (newBlob (recordedChunks (state h)) webmOpus, h')
        \<and> \<not> isRemembering (state h')
        \<and> recordedChunks (state h') = []
        \<and> bufferRef h' = bufferRef h)"
  by (simp add: startRemembering_outcome_def startRemembering_def
      stopRemembering_outcome_def stopRemembering_def)

section \<open>The sound trigger\<close>


section \<open>Fill level and resizing\<close>

text \<open>
  C4. With a window of 30 seconds and one chunk per second for 45 seconds, the 45th
  ingestion leaves exactly 30 chunks and a fill of 100 percent.

  As stated this does not hold: thirty chunks remain, but the fill (a percentage) is
  neither 100 nor 1.
\<close>

theorem run45_fill_is_not_full:
  "length (bufferRef run45) = 30
   \<and> getBufferFill run45 \<noteq> Some 100
   \<and> getBufferFill run45 \<noteq> Some 1"
  by code_simp

text \<open>
  C4, as the hook behaves: the 45th ingestion leaves exactly the 30 chunks stamped
  16 s to 45 s (the oldest 15 are evicted); they span 29 seconds, and the fill is
  29/30 of the window, about 96.7 percent.
\<close>

theorem run45_thirty_chunks_span_29_seconds:
  "length (bufferRef run45) = 30
   \<and> map timestamp (bufferRef run45) = map (\<lambda>i. 1000 * int i) [16 ..< 46]
   \<and> getBufferDuration run45 = 29
   \<and> getBufferFill run45 = Some (29 / 30 * 100)"
  by code_simp

text \<open>
  C5. \<open>updateBufferSize(n)\<close> sets the window to \<open>n\<close> clamped into 30..3000 and
  immediately evicts every chunk older than \<open>now\<close> minus the new window; growing the
  window evicts nothing and restores nothing.

  As stated this does not hold: with five chunks buffered in a window of 30 seconds and
  no delivery since, growing the window to 60 seconds at 100 s evicts all five.
\<close>

theorem growing_window_evicts_stale_chunks:
  "bufferSize (state buffered5) = 30
   \<and> length (bufferRef buffered5) = 5
   \<and> bufferSize (state (updateBufferSize 60 100000 buffered5)) = 60
   \<and> bufferRef (updateBufferSize 60 100000 buffered5) = []"
  by code_simp

text \<open>
  C5, as the hook behaves: for every \<open>n\<close> the new window is \<open>n\<close> clamped into
  30..3000, and the buffer keeps, in order, exactly the chunks younger at \<open>now\<close> than
  the new window, without waiting for an ingestion. Growing the window evicts nothing
  when every buffered chunk is younger at \<open>now\<close> than the old window. No resize adds
  a chunk.
\<close>

theorem updateBufferSize_clamps_and_evicts:
  "bufferSize (state (updateBufferSize n now h)) = max 30 (min 3000 n)
   \<and> 30 \<le> bufferSize (state (updateBufferSize n now h))
   \<and> bufferSize (state (updateBufferSize n now h)) \<le> 3000
   \<and> bufferRef (updateBufferSize n now h) =
       filter (\<lambda>chunk. now - bufferSize (state (updateBufferSize n now h)) * 1000
                         < timestamp chunk)
         (bufferRef h)
   \<and> (bufferSize (state h) \<le> bufferSize (state (updateBufferSize n now h))
        \<and> list_all (\<lambda>chunk. now - bufferSize (state h) * 1000 < timestamp chunk) (bufferRef h)
      \<longrightarrow> bufferRef (updateBufferSize n now h) = bufferRef h)
   \<and> set (bufferRef (updateBufferSize n now h)) \<subseteq> set (bufferRef h)"
proof -
  let ?w = "max 30 (min 3000 n)"
  have size: "bufferSize (state (updateBufferSize n now h)) = ?w"
    by (rule updateBufferSize_bufferSize)
  have ref: "bufferRef (updateBufferSize n now h) =
      filter (\<lambda>chunk. now - ?w * 1000 < timestamp chunk) (bufferRef h)"
    by (rule updateBufferSize_bufferRef)
  have grow: "bufferRef (updateBufferSize n now h) = bufferRef h"
    if le: "bufferSize (state h) \<le> ?w"
      and inside: "list_all (\<lambda>chunk. now - bufferSize (state h) * 1000 < timestamp chunk)
                     (bufferRef h)"
  proof -
    have "\<forall>chunk \<in> set (bufferRef h). now - ?w * 1000 < timestamp chunk"
    proof
      fix chunk assume "chunk \<in> set (bufferRef h)"
      with inside have "now - bufferSize (state h) * 1000 < timestamp chunk"
        by (simp add: list_all_iff)
      with le show "now - ?w * 1000 < timestamp chunk" by linarith
    qed
    then show ?thesis unfolding ref by (simp add: filter_id_conv)
  qed
  show ?thesis
    using grow by (simp add: size ref)
qed

text \<open>
  The theorem at the five buffered chunks: at 5.5 s a resize to 20 is clamped to 30,
  a resize to 5000 to 3000, and growing the window to 60 seconds keeps all five
  chunks.
\<close>

theorem updateBufferSize_clamps_and_evicts_witness:
  "bufferSize (state buffered5) \<le> bufferSize (state (updateBufferSize 60 5500 buffered5))
   \<and> list_all (\<lambda>chunk. 5500 - bufferSize (state buffered5) * 1000 < timestamp chunk)
        (bufferRef buffered5)
   \<and> bufferSize (state (updateBufferSize 60 5500 buffered5)) = 60
   \<and> bufferRef (updateBufferSize 60 5500 buffered5) = bufferRef buffered5
   \<and> bufferSize (state (updateBufferSize 20 5500 buffered5)) = 30
   \<and> bufferSize (state (updateBufferSize 5000 5500 buffered5)) = 3000"
proof -
  have a: "bufferSize (state buffered5) \<le> bufferSize (state (updateBufferSize 60 5500 buffered5))"
    by code_simp
  have b: "list_all (\<lambda>chunk. 5500 - bufferSize (state buffered5) * 1000 < timestamp chunk)
        (bufferRef buffered5)"
    by code_simp
  from updateBufferSize_clamps_and_evicts [of 60 5500 buffered5, THEN conjunct1]
  have c: "bufferSize (state (updateBufferSize 60 5500 buffered5)) = 60" by simp
  from updateBufferSize_clamps_and_evicts [of 60 5500 buffered5] a b
  have d: "bufferRef (updateBufferSize 60 5500 buffered5) = bufferRef buffered5" by blast
  from updateBufferSize_clamps_and_evicts [of 20 5500 buffered5, THEN conjunct1]
  have e: "bufferSize (state (updateBufferSize 20 5500 buffered5)) = 30" by simp
  from updateBufferSize_clamps_and_evicts [of 5000 5500 buffered5, THEN conjunct1]
  have f: "bufferSize (state (updateBufferSize 5000 5500 buffered5)) = 3000" by simp
  from a b c d e f show ?thesis by blast
qed

text \<open>
  C6. Shrinking the window from \<open>W1\<close> to \<open>W2 < W1\<close> never increases the fill
  ratio.

  As stated this does not hold: 21 chunks spanning 20 seconds fill a third of a window
  of 60 seconds; shrinking the window to 30 seconds at 21 s evicts nothing, and the
  same chunks fill two thirds of the new window.
\<close>

theorem shrinking_window_raises_fill:
  "bufferSize (state buffered21) = 60
   \<and> getBufferFill buffered21 = Some (100 / 3)
   \<and> bufferSize (state (updateBufferSize 30 21000 buffered21)) = 30
   \<and> getBufferFill (updateBufferSize 30 21000 buffered21) = Some (200 / 3)
   \<and> the (getBufferFill buffered21) < the (getBufferFill (updateBufferSize 30 21000 buffered21))"
  by code_simp

text \<open>
  C6, as the hook behaves: when the buffered chunks are in timestamp order, a resize
  (so in particular a shrink from \<open>W1\<close> to \<open>W2 < W1\<close>) never increases the buffered
  duration \<open>getBufferDuration()\<close>, the numerator of the fill.
\<close>

theorem resize_never_lengthens_duration:
  assumes "sorted (map timestamp (bufferRef h))"
  shows "getBufferDuration (updateBufferSize n now h) \<le> getBufferDuration h"
proof -
  let ?P = "\<lambda>t. t > now - max 30 (min 3000 n) * 1000"
  let ?ts = "map timestamp (bufferRef h)"
  have ts': "map timestamp (bufferRef (updateBufferSize n now h)) = filter ?P ?ts"
    by (simp add: updateBufferSize_bufferRef filter_map comp_def)
  have nonneg: "0 \<le> getBufferDuration h"
  proof (cases "bufferRef h = []")
    case True
    then show ?thesis by (simp add: getBufferDuration_timestamps)
  next
    case False
    then have "?ts \<noteq> []" by simp
    then have "hd ?ts \<in> set ?ts" by (rule hd_in_set)
    with assms have "hd ?ts \<le> last ?ts" by (rule sorted_le_last)
    with False show ?thesis by (simp add: getBufferDuration_timestamps)
  qed
  show ?thesis
  proof (cases "bufferRef (updateBufferSize n now h) = []")
    case True
    with nonneg show ?thesis by (simp add: getBufferDuration_timestamps)
  next
    case False
    then have ne': "filter ?P ?ts \<noteq> []" using ts' by (metis map_is_Nil_conv)
    then have ne: "bufferRef h \<noteq> []" by auto
    from span_filter_le [OF assms ne']
    have "last (filter ?P ?ts) - hd (filter ?P ?ts) \<le> last ?ts - hd ?ts" .
    then have "real_of_int (last (filter ?P ?ts) - hd (filter ?P ?ts)) / 1000
        \<le> real_of_int (last ?ts - hd ?ts) / 1000"
      by (simp add: divide_right_mono)
    with False ne show ?thesis
      unfolding getBufferDuration_timestamps [of "updateBufferSize n now h"]
        getBufferDuration_timestamps [of h] ts' by simp
  qed
qed

text \<open>
  The theorem at the 21 buffered chunks: shrinking the window to 30 seconds at 40 s
  leaves the chunks stamped 11 s to 21 s, 10 seconds instead of 20.
\<close>

theorem resize_never_lengthens_duration_witness:
  "sorted (map timestamp (bufferRef buffered21))
   \<and> getBufferDuration buffered21 = 20
   \<and> getBufferDuration (updateBufferSize 30 40000 buffered21) = 10
   \<and> getBufferDuration (updateBufferSize 30 40000 buffered21) \<le> getBufferDuration buffered21"
proof -
  have a: "sorted (map timestamp (bufferRef buffered21))" by code_simp
  have b: "getBufferDuration buffered21 = 20" by code_simp
  have c: "getBufferDuration (updateBufferSize 30 40000 buffered21) = 10" by code_simp
  from resize_never_lengthens_duration [OF a, of 30 40000] a b c show ?thesis by blast
qed

section \<open>Extraction and the fallback to demo mode\<close>

text \<open>
  C8. \<open>triggerRecording\<close> fails with \<open>EmptyBuffer\<close> when buffering was never
  started or no chunk is buffered; otherwise it returns the concatenation, in order, of
  the chunks stamped between \<open>now\<close> minus the window and \<open>now\<close>.

  As stated this does not hold: on a fresh hook, never started and with no chunk, the
  promise resolves, to an empty blob.
\<close>

theorem trigger_on_fresh_hook_resolves:
  "callback (useAudioBuffer 30) = NoCallback
   \<and> bufferRef (useAudioBuffer 30) = []
   \<and> triggerRecording_outcome 1000 (useAudioBuffer 30) \<noteq> Inl EmptyBuffer
   \<and> fst (triggerRecording 1000 (useAudioBuffer 30)) = Blob [] webmOpus"
  by code_simp

text \<open>
  C8, as the hook behaves: \<open>triggerRecording\<close> never fails. In every state it
  resolves to the blob that concatenates, in buffer order, the chunks stamped between
  \<open>now\<close> minus the current window and \<open>now\<close>, both bounds included; with no chunk
  buffered, and on a hook that was never started, that blob is empty.
\<close>

theorem triggerRecording_never_fails:
  "(\<exists>h'. triggerRecording_outcome now h =
          Inr (Blob (concat (map (\<lambda>chunk. bytes (blob chunk))
                 (filter (\<lambda>chunk. now - bufferSize (state h) * 1000 \<le> timestamp chunk
                                 \<and> timestamp chunk \<le> now) (bufferRef h)))) webmOpus, h'))
   \<and> blobSize (fst (triggerRecording now (h\<lparr> bufferRef := [] \<rparr>))) = 0
   \<and> fst (triggerRecording now (useAudioBuffer size0)) = Blob [] webmOpus"
  by (simp add: triggerRecording_outcome_def triggerRecording_def relevantChunks_def
      newBlob_def blobSize_def useAudioBuffer_def Let_def comp_def)

text \<open>
  C9. Whenever the acquisition of the capture device fails in \<open>startBuffering\<close>
  (permission denied, no device, device busy, or any other error), the hook falls back
  to demo mode: buffering runs, and a later \<open>triggerRecording\<close> succeeds with
  synthetic chunks.

  The fallback installs the demo interval and sets \<open>isBuffering\<close>, and the render
  that follows clears the interval: in the hook \<open>refusedAtMount\<close> nothing is
  installed, \<open>isBuffering\<close> is false, the tick due at 1 s does not run, and a
  trigger at 1.5 s resolves to an empty blob.
\<close>

theorem demo_fallback_is_cancelled:
  "callback (startBuffering NotAllowedError 0 (useAudioBuffer 30))
     = DemoInterval (state (useAudioBuffer 30))
   \<and> callback refusedAtMount = NoCallback
   \<and> \<not> isBuffering (state refusedAtMount)
   \<and> bufferRef (fire (DemoTick 1000 (replicate 176400 0)) refusedAtMount) = []
   \<and> fst (triggerRecording 1500 (fire (DemoTick 1000 (replicate 176400 0)) refusedAtMount))
        = Blob [] webmOpus"
proof -
  have a: "callback (startBuffering NotAllowedError 0 (useAudioBuffer 30))
     = DemoInterval (state (useAudioBuffer 30))"
    by code_simp
  have b: "callback refusedAtMount = NoCallback" by code_simp
  have c: "\<not> isBuffering (state refusedAtMount)" by code_simp
  have tick: "fire (DemoTick 1000 (replicate 176400 0)) refusedAtMount = refusedAtMount"
    by (simp add: b)
  have d: "bufferRef refusedAtMount = []" by code_simp
  have e: "fst (triggerRecording 1500 refusedAtMount) = Blob [] webmOpus" by code_simp
  from a b c d e show ?thesis unfolding tick by blast
qed

end
